theory Spec2Isabelle
  imports Main "HOL-Library.AList"
begin

section \<open>The compiler of \<^verbatim>\<open>src/js/compiler.js\<close>\<close>

text \<open>
  The JavaScript module compiles a syntax tree into closures and objects (entities, attributes,
  macros). This theory embeds it as follows.

  \<^item> A closure returned by one of the constructor functions (\<^verbatim>\<open>Identifier\<close>,
    \<^verbatim>\<open>ArrayLiteral\<close>, ...) is a value of the datatype \<open>evaluator\<close>: one constructor per
    closure, named after the source's function expression, holding the variables it captures.
  \<^item> The mutable variables and arrays that closures and objects share live in an explicit
    store: the \<^verbatim>\<open>dirty\<close> flag of every compiled interpolated string, and every array that
    \<^verbatim>\<open>shift\<close> consumes (an entity's \<^verbatim>\<open>index\<close>, a cursor handed in by the caller, the
    one-element cursor of a property expression). Both are addressed, so aliasing is visible.
  \<^item> The \<^verbatim>\<open>locals\<close> object is passed by reference down every call and never stored, so
    it is threaded through the state.
  \<^item> \<^verbatim>\<open>throw\<close> and the engine's \<^verbatim>\<open>TypeError\<close> are results; running a closure takes
    fuel, since entities may refer to each other without end.
  \<^item> Objects used as dictionaries are finite maps over the keys stored in them; the names that
    every JavaScript object inherits (\<^verbatim>\<open>constructor\<close>, \<^verbatim>\<open>toString\<close>, an array's
    \<^verbatim>\<open>length\<close>, ...) and the name \<^verbatim>\<open>GLOBALS\<close> of the context are not property names of the
    model.
  \<^item> Numbers and the native operators on them are a parameter (\<open>native\<close>): no claim about
    the compiler depends on floating-point arithmetic.
\<close>

subsection \<open>Syntax nodes\<close>

text \<open>The keys of the dispatch table \<^verbatim>\<open>EXPRESSION_TYPES\<close>.\<close>

definition EXPRESSION_TYPES :: "string list" where
  "EXPRESSION_TYPES =
     [''identifier'', ''this'', ''variable'', ''global'', ''number'', ''string'', ''array'',
      ''hash'', ''complexString'', ''keyValuePair'',
      ''unaryExpression'', ''binaryExpression'', ''logicalExpression'',
      ''conditionalExpression'',
      ''callExpression'', ''propertyExpression'', ''attributeExpression'']"

text \<open>
  The names that the table inherits as an object. They are no keys of the table, but a lookup
  finds a value under them (\<^verbatim>\<open>EXPRESSION_TYPES['constructor']\<close> is \<^verbatim>\<open>Object\<close>), so they are
  kept out of the type tags of the model.
\<close>

definition Object_prototype :: "string list" where
  "Object_prototype =
     [''constructor'', ''toString'', ''toLocaleString'', ''valueOf'', ''hasOwnProperty'',
      ''isPrototypeOf'', ''propertyIsEnumerable'', ''__proto__'', ''__defineGetter__'',
      ''__defineSetter__'', ''__lookupGetter__'', ''__lookupSetter__'']"

text \<open>A type tag under which a lookup in the table finds nothing.\<close>

typedef other_kind = "{k :: string. k \<notin> set EXPRESSION_TYPES \<and> k \<notin> set Object_prototype}"
  by (rule exI [of _ "''parenthesisExpression''"])
    (simp add: EXPRESSION_TYPES_def Object_prototype_def)

text \<open>
  A node as the parser hands it over, with the fields the compiler reads. The elements of an
  array or hash literal are paired with their \<^verbatim>\<open>default\<close> property. A property or attribute
  expression holds either the node of a computed member (\<open>Inl\<close>) or the \<^verbatim>\<open>name\<close> of the
  identifier after the dot (\<open>Inr\<close>). A logical expression may have no operator, and then no
  right operand.
\<close>

datatype 'n node =
    IdentifierNode string
  | ThisNode
  | VariableNode string
  | GlobalNode string
  | NumberNode 'n
  | StringNode string
  | ArrayNode "('n node \<times> bool) list"
  | HashNode "('n node \<times> bool) list"
  | ComplexStringNode "'n node list"
  | KeyValuePairNode string "'n node"
  | UnaryExpressionNode string "'n node"
  | BinaryExpressionNode "'n node" string "'n node"
  | LogicalExpressionNode "'n node" "string option" "'n node option"
  | ConditionalExpressionNode "'n node" "'n node" "'n node"
  | CallExpressionNode "'n node" "'n node list"
  | PropertyExpressionNode "'n node" "'n node + string"
  | AttributeExpressionNode "'n node" "'n node + string"
  | OtherNode other_kind


text \<open>
  \<^verbatim>\<open>elem.id\<close> used as a property key: the \<^verbatim>\<open>id\<close> of a key-value pair; a node of any other
  kind has no \<^verbatim>\<open>id\<close>, and \<^verbatim>\<open>undefined\<close> as a key is the string \<^verbatim>\<open>"undefined"\<close>.
\<close>

fun node_id :: "'n node \<Rightarrow> string" where
  "node_id (KeyValuePairNode i _) = i"
| "node_id _ = ''undefined''"

record 'n attribute_node =
  attr_id :: string
  attr_local :: bool
  attr_value :: "'n node option"

record 'n entity_node =
  ent_id :: string
  ent_value :: "'n node option"
  ent_index :: "'n node list"
  ent_attrs :: "'n attribute_node list"
  ent_local :: bool



subsection \<open>Closures, objects and values\<close>

datatype unop = negativeOperator | positiveOperator | notOperator

datatype binop =
    equalOperator | notEqualOperator | lessThanOperator | lessThanEqualOperator
  | greaterThanOperator | greaterThanEqualOperator | addOperator | substractOperator
  | multiplyOperator | devideOperator | moduloOperator

datatype logop = andOperator | orOperator

type_synonym addr = nat

text \<open>
  The closures. An operator is \<open>None\<close> when the operator table returned no function for the
  token: \<^verbatim>\<open>new UnaryOperator(token)\<close> is then a plain object. \<open>emptyExpression\<close> is the
  object that \<^verbatim>\<open>new Expression(node)\<close> yields for a missing node: \<^verbatim>\<open>return null\<close> in a
  constructor call is ignored, so the result is the fresh instance, which is not a function.
\<close>

datatype 'n evaluator =
    identifier' string
  | thisIdentifier
  | variable string
  | global string
  | numberLiteral 'n
  | stringLiteral string
  | arrayLiteral "'n evaluator list" nat
  | hashLiteral "(string \<times> 'n evaluator) list" string
  | complexString addr "'n evaluator list"
  | unaryExpression "unop option" "'n evaluator"
  | binaryExpression "'n evaluator" "binop option" "'n evaluator"
  | logicalExpression "'n evaluator" "logop option" "'n evaluator"
  | conditionalExpression "'n evaluator" "'n evaluator" "'n evaluator"
  | callExpression "'n evaluator" "'n evaluator list"
  | propertyExpression "'n evaluator" "'n evaluator + string"
  | attributeExpression "'n evaluator" "'n evaluator + string"
  | emptyExpression

record 'n Attribute =
  a_id :: string
  a_local :: bool
  a_value :: "'n evaluator"

text \<open>\<open>e_index\<close> is the address of the array \<^verbatim>\<open>this.index\<close>.\<close>

record 'n Entity =
  e_id :: string
  e_value :: "'n evaluator"
  e_index :: addr
  e_attributes :: "(string \<times> 'n Attribute) list"
  e_local :: bool

datatype 'n val =
    Undefined
  | Null
  | Bool bool
  | Num 'n
  | Str string
  | Compiled "'n evaluator"
  | MacroFn "string list" "'n evaluator"
  | EntityObj "'n Entity"
  | AttributeObj "'n Attribute"
  | Array addr

datatype exn = TypeError | RecursiveReference

datatype 'a result = Ok 'a | Throw exn | OutOfFuel

record 'n state =
  locals :: "string \<rightharpoonup> 'n val"
  dirty :: "addr \<rightharpoonup> bool"
  arrays :: "addr \<rightharpoonup> 'n val list"
  fresh :: addr

text \<open>The context: its own entries (\<^verbatim>\<open>env[name]\<close>) and \<^verbatim>\<open>env.GLOBALS\<close>, if it has one.\<close>

record 'n env =
  entries :: "string \<rightharpoonup> 'n val"
  GLOBALS :: "(string \<rightharpoonup> 'n val) option"

text \<open>What the JavaScript engine supplies.\<close>

record 'n native =
  number_truthy :: "'n \<Rightarrow> bool"
  number_to_string :: "'n \<Rightarrow> string"
  object_to_string :: "'n val \<Rightarrow> string"
  negate :: "'n val \<Rightarrow> 'n val"
  to_number :: "'n val \<Rightarrow> 'n val"
  binary :: "binop \<Rightarrow> 'n val \<Rightarrow> 'n val \<Rightarrow> 'n val"

subsection \<open>Operator tables\<close>

definition UnaryOperator :: "string \<Rightarrow> unop option" where
  "UnaryOperator token =
     (if token = ''-'' then Some negativeOperator
      else if token = ''+'' then Some positiveOperator
      else if token = ''!'' then Some notOperator
      else None)"

definition BinaryOperator :: "string \<Rightarrow> binop option" where
  "BinaryOperator token =
     (if token = ''=='' then Some equalOperator
      else if token = ''!='' then Some notEqualOperator
      else if token = ''<'' then Some lessThanOperator
      else if token = ''<='' then Some lessThanEqualOperator
      else if token = ''>'' then Some greaterThanOperator
      else if token = ''>='' then Some greaterThanEqualOperator
      else if token = ''+'' then Some addOperator
      else if token = ''-'' then Some substractOperator
      else if token = ''*'' then Some multiplyOperator
      else if token = ''/'' then Some devideOperator
      else if token = ''%'' then Some moduloOperator
      else None)"

definition LogicalOperator :: "string \<Rightarrow> logop option" where
  "LogicalOperator token =
     (if token = ''&&'' then Some andOperator
      else if token = ''||'' then Some orOperator
      else None)"

subsection \<open>Compilation\<close>

text \<open>\<^verbatim>\<open>var dirty = false\<close>: a new flag at the address \<open>fresh s\<close>.\<close>

definition new_flag :: "'n state \<Rightarrow> 'n state" where
  "new_flag s = s\<lparr>dirty := (dirty s)(fresh s \<mapsto> False), fresh := Suc (fresh s)\<rparr>"

text \<open>An array literal: a new array at the address \<open>fresh s\<close>.\<close>

definition new_array :: "'n val list \<Rightarrow> 'n state \<Rightarrow> 'n state" where
  "new_array xs s = s\<lparr>arrays := (arrays s)(fresh s \<mapsto> xs), fresh := Suc (fresh s)\<rparr>"

definition push :: "addr \<Rightarrow> 'n val \<Rightarrow> 'n state \<Rightarrow> 'n state" where
  "push a v s =
     s\<lparr>arrays := (arrays s)(a \<mapsto> (case arrays s a of None \<Rightarrow> [v] | Some xs \<Rightarrow> xs @ [v]))\<rparr>"

text \<open>
  \<^verbatim>\<open>Expression(node)\<close>: the lookup of \<^verbatim>\<open>node.type\<close> in the table is the match on the node;
  for a tag outside the table, \<^verbatim>\<open>new undefined(node)\<close> is a \<^verbatim>\<open>TypeError\<close>. The equations
  of the node kinds are the bodies of \<^verbatim>\<open>Identifier\<close>, ..., \<^verbatim>\<open>AttributeExpression\<close>, and
  the three list functions are their \<^verbatim>\<open>forEach\<close> loops.
\<close>

fun Expression :: "'n node option \<Rightarrow> 'n state \<Rightarrow> (exn + 'n evaluator) \<times> 'n state"
and push_Expressions ::
  "'n node list \<Rightarrow> 'n evaluator list \<Rightarrow> 'n state \<Rightarrow> (exn + 'n evaluator list) \<times> 'n state"
and ArrayLiteral_forEach ::
  "('n node \<times> bool) list \<Rightarrow> nat \<Rightarrow> 'n evaluator list \<Rightarrow> nat \<Rightarrow> 'n state
     \<Rightarrow> (exn + 'n evaluator list \<times> nat) \<times> 'n state"
and HashLiteral_forEach ::
  "('n node \<times> bool) list \<Rightarrow> nat \<Rightarrow> (string \<times> 'n evaluator) list \<Rightarrow> string \<Rightarrow> 'n state
     \<Rightarrow> (exn + (string \<times> 'n evaluator) list \<times> string) \<times> 'n state"
where
  "Expression None s = (Inr emptyExpression, s)"
| "Expression (Some (IdentifierNode name)) s = (Inr (identifier' name), s)"
| "Expression (Some ThisNode) s = (Inr thisIdentifier, s)"
| "Expression (Some (VariableNode name)) s = (Inr (variable name), s)"
| "Expression (Some (GlobalNode name)) s = (Inr (global name), s)"
| "Expression (Some (NumberNode content)) s = (Inr (numberLiteral content), s)"
| "Expression (Some (StringNode content)) s = (Inr (stringLiteral content), s)"
| "Expression (Some (ArrayNode elems)) s =
     (case ArrayLiteral_forEach elems 0 [] 0 s of
        (Inl e, s') \<Rightarrow> (Inl e, s')
      | (Inr (content, defaultKey), s') \<Rightarrow> (Inr (arrayLiteral content defaultKey), s'))"
| "Expression (Some (HashNode elems)) s =
     (case HashLiteral_forEach elems 0 [] ''null'' s of
        (Inl e, s') \<Rightarrow> (Inl e, s')
      | (Inr (content, defaultKey), s') \<Rightarrow> (Inr (hashLiteral content defaultKey), s'))"
| "Expression (Some (ComplexStringNode elems)) s =
     (case push_Expressions elems [] (new_flag s) of
        (Inl e, s') \<Rightarrow> (Inl e, s')
      | (Inr content, s') \<Rightarrow> (Inr (complexString (fresh s) content), s'))"
| "Expression (Some (KeyValuePairNode i v)) s = Expression (Some v) s"
| "Expression (Some (UnaryExpressionNode token operand)) s =
     (case Expression (Some operand) s of
        (Inl e, s') \<Rightarrow> (Inl e, s')
      | (Inr operand', s') \<Rightarrow> (Inr (unaryExpression (UnaryOperator token) operand'), s'))"
| "Expression (Some (BinaryExpressionNode l token r)) s =
     (case Expression (Some l) s of
        (Inl e, s1) \<Rightarrow> (Inl e, s1)
      | (Inr left, s1) \<Rightarrow>
          (case Expression (Some r) s1 of
             (Inl e, s2) \<Rightarrow> (Inl e, s2)
           | (Inr right, s2) \<Rightarrow> (Inr (binaryExpression left (BinaryOperator token) right), s2)))"
| "Expression (Some (LogicalExpressionNode l operator r)) s =
     (case Expression (Some l) s of
        (Inl e, s1) \<Rightarrow> (Inl e, s1)
      | (Inr left, s1) \<Rightarrow>
          (case operator of
             None \<Rightarrow> (Inr left, s1)
           | Some token \<Rightarrow>
               if token = [] then (Inr left, s1)
               else
                 (case Expression r s1 of
                    (Inl e, s2) \<Rightarrow> (Inl e, s2)
                  | (Inr right, s2) \<Rightarrow>
                      (Inr (logicalExpression left (LogicalOperator token) right), s2))))"
| "Expression (Some (ConditionalExpressionNode t c a)) s =
     (case Expression (Some t) s of
        (Inl e, s1) \<Rightarrow> (Inl e, s1)
      | (Inr test, s1) \<Rightarrow>
          (case Expression (Some c) s1 of
             (Inl e, s2) \<Rightarrow> (Inl e, s2)
           | (Inr consequent, s2) \<Rightarrow>
               (case Expression (Some a) s2 of
                  (Inl e, s3) \<Rightarrow> (Inl e, s3)
                | (Inr alternate, s3) \<Rightarrow>
                    (Inr (conditionalExpression test consequent alternate), s3))))"
| "Expression (Some (CallExpressionNode c arguments)) s =
     (case Expression (Some c) s of
        (Inl e, s1) \<Rightarrow> (Inl e, s1)
      | (Inr callee, s1) \<Rightarrow>
          (case push_Expressions arguments [] s1 of
             (Inl e, s2) \<Rightarrow> (Inl e, s2)
           | (Inr args, s2) \<Rightarrow> (Inr (callExpression callee args), s2)))"
| "Expression (Some (PropertyExpressionNode x p)) s =
     (case Expression (Some x) s of
        (Inl e, s1) \<Rightarrow> (Inl e, s1)
      | (Inr expression, s1) \<Rightarrow>
          (case p of
             Inr name \<Rightarrow> (Inr (propertyExpression expression (Inr name)), s1)
           | Inl computed \<Rightarrow>
               (case Expression (Some computed) s1 of
                  (Inl e, s2) \<Rightarrow> (Inl e, s2)
                | (Inr property, s2) \<Rightarrow>
                    (Inr (propertyExpression expression (Inl property)), s2))))"
| "Expression (Some (AttributeExpressionNode x p)) s =
     (case Expression (Some x) s of
        (Inl e, s1) \<Rightarrow> (Inl e, s1)
      | (Inr expression, s1) \<Rightarrow>
          (case p of
             Inr name \<Rightarrow> (Inr (attributeExpression expression (Inr name)), s1)
           | Inl computed \<Rightarrow>
               (case Expression (Some computed) s1 of
                  (Inl e, s2) \<Rightarrow> (Inl e, s2)
                | (Inr attribute, s2) \<Rightarrow>
                    (Inr (attributeExpression expression (Inl attribute)), s2))))"
| "Expression (Some (OtherNode k)) s = (Inl TypeError, s)"
| "push_Expressions [] content s = (Inr content, s)"
| "push_Expressions (elem # rest) content s =
     (case Expression (Some elem) s of
        (Inl e, s') \<Rightarrow> (Inl e, s')
      | (Inr compiled, s') \<Rightarrow> push_Expressions rest (content @ [compiled]) s')"
| "ArrayLiteral_forEach [] i content defaultKey s = (Inr (content, defaultKey), s)"
| "ArrayLiteral_forEach ((elem, dflt) # rest) i content defaultKey s =
     (case Expression (Some elem) s of
        (Inl e, s') \<Rightarrow> (Inl e, s')
      | (Inr compiled, s') \<Rightarrow>
          ArrayLiteral_forEach rest (Suc i) (content @ [compiled])
            (if dflt then i else defaultKey) s')"
| "HashLiteral_forEach [] i content defaultKey s = (Inr (content, defaultKey), s)"
| "HashLiteral_forEach ((elem, dflt) # rest) i content defaultKey s =
     (case Expression (Some elem) s of
        (Inl e, s') \<Rightarrow> (Inl e, s')
      | (Inr compiled, s') \<Rightarrow>
          HashLiteral_forEach rest (Suc i) (AList.update (node_id elem) compiled content)
            (if i = 0 \<or> dflt then node_id elem else defaultKey) s')"

text \<open>The entries.\<close>

definition Attribute :: "'n attribute_node \<Rightarrow> 'n state \<Rightarrow> (exn + 'n Attribute) \<times> 'n state" where
  "Attribute node s =
     (case Expression (attr_value node) s of
        (Inl e, s') \<Rightarrow> (Inl e, s')
      | (Inr v, s') \<Rightarrow>
          (Inr \<lparr>a_id = attr_id node, a_local = attr_local node, a_value = v\<rparr>, s'))"

text \<open>\<^verbatim>\<open>node.index.forEach\<close>: each compiled index is pushed onto \<^verbatim>\<open>this.index\<close>.\<close>

fun index_forEach :: "'n node list \<Rightarrow> addr \<Rightarrow> 'n state \<Rightarrow> exn option \<times> 'n state" where
  "index_forEach [] a s = (None, s)"
| "index_forEach (ind # rest) a s =
     (case Expression (Some ind) s of
        (Inl e, s') \<Rightarrow> (Some e, s')
      | (Inr compiled, s') \<Rightarrow> index_forEach rest a (push a (Compiled compiled) s'))"

fun attrs_forEach ::
  "'n attribute_node list \<Rightarrow> (string \<times> 'n Attribute) list \<Rightarrow> 'n state
     \<Rightarrow> (exn + (string \<times> 'n Attribute) list) \<times> 'n state" where
  "attrs_forEach [] attributes s = (Inr attributes, s)"
| "attrs_forEach (attr # rest) attributes s =
     (case Attribute attr s of
        (Inl e, s') \<Rightarrow> (Inl e, s')
      | (Inr a, s') \<Rightarrow> attrs_forEach rest (AList.update (attr_id attr) a attributes) s')"

definition Entity :: "'n entity_node \<Rightarrow> 'n state \<Rightarrow> (exn + 'n Entity) \<times> 'n state" where
  "Entity node s =
     (case Expression (ent_value node) s of
        (Inl e, s1) \<Rightarrow> (Inl e, s1)
      | (Inr v, s1) \<Rightarrow>
          (case index_forEach (ent_index node) (fresh s1) (new_array [] s1) of
             (Some e, s2) \<Rightarrow> (Inl e, s2)
           | (None, s2) \<Rightarrow>
               (case attrs_forEach (ent_attrs node) [] s2 of
                  (Inl e, s3) \<Rightarrow> (Inl e, s3)
                | (Inr attributes, s3) \<Rightarrow>
                    (Inr \<lparr>e_id = ent_id node, e_value = v, e_index = fresh s1,
                          e_attributes = attributes, e_local = ent_local node\<rparr>, s3))))"



subsection \<open>Values at run time\<close>

text \<open>\<^verbatim>\<open>object[name]\<close> on a dictionary: \<^verbatim>\<open>undefined\<close> when the key is absent.\<close>

definition lookup :: "(string \<rightharpoonup> 'n val) \<Rightarrow> string \<Rightarrow> 'n val" where
  "lookup m k = (case m k of None \<Rightarrow> Undefined | Some v \<Rightarrow> v)"

text \<open>The truth value of a value in a condition.\<close>

definition truthy :: "'n native \<Rightarrow> 'n val \<Rightarrow> bool" where
  "truthy N v =
     (case v of
        Undefined \<Rightarrow> False
      | Null \<Rightarrow> False
      | Bool b \<Rightarrow> b
      | Num n \<Rightarrow> number_truthy N n
      | Str x \<Rightarrow> x \<noteq> []
      | _ \<Rightarrow> True)"

text \<open>A value used as a property key.\<close>

definition to_key :: "'n native \<Rightarrow> 'n val \<Rightarrow> string" where
  "to_key N v =
     (case v of
        Undefined \<Rightarrow> ''undefined''
      | Null \<Rightarrow> ''null''
      | Bool b \<Rightarrow> (if b then ''true'' else ''false'')
      | Num n \<Rightarrow> number_to_string N n
      | Str x \<Rightarrow> x
      | _ \<Rightarrow> object_to_string N v)"

text \<open>The decimal numeral of an array index, which is its property key.\<close>

fun decimal :: "nat \<Rightarrow> string" where
  "decimal n =
     (if n < 10 then [''0123456789'' ! n]
      else decimal (n div 10) @ [''0123456789'' ! (n mod 10)])"

declare decimal.simps [simp del]

text \<open>\<^verbatim>\<open>array[key]\<close>, and an array read as a dictionary.\<close>

definition array_object :: "'a list \<Rightarrow> string \<rightharpoonup> 'a" where
  "array_object xs = map_of (zip (map decimal [0..<length xs]) xs)"

text \<open>\<^verbatim>\<open>typeof v == 'function'\<close>.\<close>

definition is_function :: "'n val \<Rightarrow> bool" where
  "is_function v =
     (case v of
        Compiled e \<Rightarrow> e \<noteq> emptyExpression
      | MacroFn _ _ \<Rightarrow> True
      | _ \<Rightarrow> False)"

text \<open>Sequencing: an exception, or the end of the fuel, ends the computation.\<close>

definition and_then ::
  "'a result \<times> 's \<Rightarrow> ('a \<Rightarrow> 's \<Rightarrow> 'b result \<times> 's) \<Rightarrow> 'b result \<times> 's" where
  "and_then m f =
     (case m of
        (Ok x, s) \<Rightarrow> f x s
      | (Throw e, s) \<Rightarrow> (Throw e, s)
      | (OutOfFuel, s) \<Rightarrow> (OutOfFuel, s))"

text \<open>
  \<^verbatim>\<open>index.shift()\<close>: only an array has the method; an empty array gives \<^verbatim>\<open>undefined\<close>.
\<close>

definition shift :: "'n val \<Rightarrow> 'n state \<Rightarrow> 'n val result \<times> 'n state" where
  "shift index s =
     (case index of
        Array a \<Rightarrow>
          (case arrays s a of
             None \<Rightarrow> (Throw TypeError, s)
           | Some [] \<Rightarrow> (Ok Undefined, s)
           | Some (x # xs) \<Rightarrow> (Ok x, s\<lparr>arrays := (arrays s)(a \<mapsto> xs)\<rparr>))
      | _ \<Rightarrow> (Throw TypeError, s))"

text \<open>
  The first argument of a call: the \<^verbatim>\<open>locals\<close> object of the caller, or the array
  \<^verbatim>\<open>resolved_args\<close> of a call expression.
\<close>

datatype 'n arg = Locals | Args "'n val list"

type_synonym 'n applicator =
  "'n val \<Rightarrow> 'n arg \<Rightarrow> 'n env \<Rightarrow> (string \<rightharpoonup> 'n val) \<Rightarrow> 'n val \<Rightarrow> 'n state
     \<Rightarrow> 'n val result \<times> 'n state"

text \<open>
  Running a computation with a locals object of its own (\<^verbatim>\<open>var locals = {}\<close>,
  \<^verbatim>\<open>{ __this__: this }\<close>): the caller's object is untouched and is current again afterwards.
\<close>

definition with_locals ::
  "(string \<rightharpoonup> 'n val) \<Rightarrow> ('n state \<Rightarrow> 'a result \<times> 'n state) \<Rightarrow> 'n state
     \<Rightarrow> 'a result \<times> 'n state" where
  "with_locals own f s =
     (case f (s\<lparr>locals := own\<rparr>) of (r, s') \<Rightarrow> (r, s'\<lparr>locals := locals s\<rparr>))"

subsection \<open>Entities, attributes and macros\<close>

text \<open>
  In the definitions below \<open>self\<close> applies a value to arguments, as
  \<^verbatim>\<open>f(locals, env, data, index)\<close> does; \<open>invoke\<close> and \<open>call\<close> at the end tie the knot.
\<close>

definition Entity__get ::
  "'n applicator \<Rightarrow> 'n Entity \<Rightarrow> 'n env \<Rightarrow> (string \<rightharpoonup> 'n val) \<Rightarrow> 'n val \<Rightarrow> 'n state
     \<Rightarrow> 'n val result \<times> 'n state" where
  "Entity__get self this env data index s =
     self (Compiled (e_value this)) Locals env data
       (if index = Undefined then Array (e_index this) else index)
       (s\<lparr>locals := (locals s)(''__this__'' \<mapsto> EntityObj this)\<rparr>)"

definition Entity__yield ::
  "'n applicator \<Rightarrow> 'n Entity \<Rightarrow> 'n env \<Rightarrow> (string \<rightharpoonup> 'n val) \<Rightarrow> 'n val \<Rightarrow> 'n state
     \<Rightarrow> 'n val result \<times> 'n state" where
  "Entity__yield self this env data index s =
     Entity__get self this env data index
       (s\<lparr>locals := (locals s)(''__resolve__'' \<mapsto> Bool False)\<rparr>)"

definition Entity__resolve ::
  "'n applicator \<Rightarrow> 'n Entity \<Rightarrow> 'n env \<Rightarrow> (string \<rightharpoonup> 'n val) \<Rightarrow> 'n val \<Rightarrow> 'n state
     \<Rightarrow> 'n val result \<times> 'n state" where
  "Entity__resolve self this env data index s =
     Entity__get self this env data index
       (s\<lparr>locals := (locals s)(''__resolve__'' \<mapsto> Bool True)\<rparr>)"

definition Attribute_yield ::
  "'n applicator \<Rightarrow> 'n Attribute \<Rightarrow> 'n env \<Rightarrow> (string \<rightharpoonup> 'n val) \<Rightarrow> 'n val \<Rightarrow> 'n state
     \<Rightarrow> 'n val result \<times> 'n state" where
  "Attribute_yield self this env data key s =
     self (Compiled (a_value this)) Locals env data key s"

text \<open>
  The loop of \<^verbatim>\<open>Attribute.get\<close>, at most \<open>k\<close> rounds. The argument \<^verbatim>\<open>index.shift()\<close> is
  evaluated before the call.
\<close>

primrec Attribute_get_while ::
  "nat \<Rightarrow> 'n applicator \<Rightarrow> 'n val \<Rightarrow> 'n env \<Rightarrow> (string \<rightharpoonup> 'n val) \<Rightarrow> 'n val \<Rightarrow> 'n state
     \<Rightarrow> 'n val result \<times> 'n state" where
  "Attribute_get_while 0 self ret env data index s =
     (case ret of Str _ \<Rightarrow> (Ok ret, s) | _ \<Rightarrow> (OutOfFuel, s))"
| "Attribute_get_while (Suc k) self ret env data index s =
     (case ret of
        Str _ \<Rightarrow> (Ok ret, s)
      | _ \<Rightarrow>
          and_then (shift index s) (\<lambda>key s1.
          and_then (self ret Locals env data key s1) (\<lambda>ret' s2.
          Attribute_get_while k self ret' env data index s2)))"

text \<open>
  \<^verbatim>\<open>locals['__this__'].index\<close>: only an entity has an \<^verbatim>\<open>index\<close>; reading it off
  \<^verbatim>\<open>undefined\<close> or \<^verbatim>\<open>null\<close> is a \<^verbatim>\<open>TypeError\<close>.
\<close>

definition this_index :: "'n state \<Rightarrow> 'n val result" where
  "this_index s =
     (case lookup (locals s) ''__this__'' of
        EntityObj e \<Rightarrow> Ok (Array (e_index e))
      | Undefined \<Rightarrow> Throw TypeError
      | Null \<Rightarrow> Throw TypeError
      | _ \<Rightarrow> Ok Undefined)"

definition Attribute_get ::
  "nat \<Rightarrow> 'n applicator \<Rightarrow> 'n Attribute \<Rightarrow> 'n env \<Rightarrow> (string \<rightharpoonup> 'n val) \<Rightarrow> 'n val
     \<Rightarrow> 'n state \<Rightarrow> 'n val result \<times> 'n state" where
  "Attribute_get k self this env data index s =
     and_then (if index = Undefined then (this_index s, s) else (Ok index, s)) (\<lambda>index s0.
     and_then (shift index s0) (\<lambda>key s1.
     and_then (Attribute_yield self this env data key s1) (\<lambda>ret s2.
     Attribute_get_while k self ret env data index s2)))"

definition Entity_get ::
  "'n applicator \<Rightarrow> 'n Entity \<Rightarrow> 'n env \<Rightarrow> (string \<rightharpoonup> 'n val) \<Rightarrow> 'n val \<Rightarrow> 'n state
     \<Rightarrow> 'n val result \<times> 'n state" where
  "Entity_get self this env data index s =
     Entity__resolve self this env data index (s\<lparr>locals := Map.empty\<rparr>)"

text \<open>
  \<^verbatim>\<open>this.attributes[name].get(...)\<close>: for a name that is no attribute, the method is read
  off \<^verbatim>\<open>undefined\<close>, a \<^verbatim>\<open>TypeError\<close>.
\<close>

definition Entity_getAttribute ::
  "'n native \<Rightarrow> nat \<Rightarrow> 'n applicator \<Rightarrow> 'n Entity \<Rightarrow> 'n val \<Rightarrow> 'n env \<Rightarrow> (string \<rightharpoonup> 'n val)
     \<Rightarrow> 'n state \<Rightarrow> 'n val result \<times> 'n state" where
  "Entity_getAttribute N k self this name env data s =
     (case map_of (e_attributes this) (to_key N name) of
        None \<Rightarrow> (Throw TypeError, s)
      | Some attr \<Rightarrow>
          with_locals [''__this__'' \<mapsto> EntityObj this]
            (Attribute_get k self attr env data Undefined) s)"

text \<open>The \<^verbatim>\<open>for (var i in this.attributes)\<close> loop of \<^verbatim>\<open>getAttributes\<close>.\<close>

primrec getAttributes_for ::
  "(string \<times> 'n Attribute) list \<Rightarrow> nat \<Rightarrow> 'n applicator \<Rightarrow> 'n Entity
     \<Rightarrow> (string \<times> 'n val) list \<Rightarrow> 'n env \<Rightarrow> (string \<rightharpoonup> 'n val) \<Rightarrow> 'n state
     \<Rightarrow> (string \<times> 'n val) list result \<times> 'n state" where
  "getAttributes_for [] k self this attrs env data s = (Ok attrs, s)"
| "getAttributes_for (p # rest) k self this attrs env data s =
     and_then
       (with_locals [''__this__'' \<mapsto> EntityObj this]
          (Attribute_get k self (snd p) env data Undefined) s) (\<lambda>v s1.
     getAttributes_for rest k self this (AList.update (a_id (snd p)) v attrs) env data s1)"

definition Entity_getAttributes ::
  "nat \<Rightarrow> 'n applicator \<Rightarrow> 'n Entity \<Rightarrow> 'n env \<Rightarrow> (string \<rightharpoonup> 'n val) \<Rightarrow> 'n state
     \<Rightarrow> (string \<times> 'n val) list result \<times> 'n state" where
  "Entity_getAttributes k self this env data s =
     getAttributes_for (e_attributes this) k self this [] env data s"

definition Entity_getEntity ::
  "nat \<Rightarrow> 'n applicator \<Rightarrow> 'n Entity \<Rightarrow> 'n env \<Rightarrow> (string \<rightharpoonup> 'n val) \<Rightarrow> 'n state
     \<Rightarrow> ('n val \<times> (string \<times> 'n val) list) result \<times> 'n state" where
  "Entity_getEntity k self this env data s =
     and_then (Entity_get self this env data Undefined s) (\<lambda>v s1.
     and_then (Entity_getAttributes k self this env data s1) (\<lambda>attributes s2.
     (Ok (v, attributes), s2)))"

text \<open>
  The closure that \<^verbatim>\<open>Macro\<close> returns. \<^verbatim>\<open>args[i]\<close> is \<^verbatim>\<open>undefined\<close> past the end of the
  array; when the closure is called with a locals object in the place of the array, \<^verbatim>\<open>args[i]\<close>
  reads that object at the key of \<open>i\<close>.
\<close>

definition args_at :: "'n arg \<Rightarrow> 'n state \<Rightarrow> nat \<Rightarrow> 'n val" where
  "args_at args s i =
     (case args of
        Args xs \<Rightarrow> (if i < length xs then xs ! i else Undefined)
      | Locals \<Rightarrow> lookup (locals s) (decimal i))"

primrec args_forEach ::
  "string list \<Rightarrow> nat \<Rightarrow> (nat \<Rightarrow> 'n val) \<Rightarrow> (string \<rightharpoonup> 'n val) \<Rightarrow> (string \<rightharpoonup> 'n val)" where
  "args_forEach [] i args locals' = locals'"
| "args_forEach (name # rest) i args locals' =
     args_forEach rest (Suc i) args (locals'(name \<mapsto> args i))"

definition macro_call ::
  "'n applicator \<Rightarrow> string list \<Rightarrow> 'n evaluator \<Rightarrow> 'n arg \<Rightarrow> 'n env \<Rightarrow> (string \<rightharpoonup> 'n val)
     \<Rightarrow> 'n state \<Rightarrow> 'n val result \<times> 'n state" where
  "macro_call self names expression args env data s =
     with_locals (args_forEach names 0 (args_at args s) Map.empty)
       (self (Compiled expression) Locals env data Undefined) s"

subsection \<open>The bodies of the closures\<close>

definition apply_unop :: "'n native \<Rightarrow> unop \<Rightarrow> 'n val \<Rightarrow> 'n val" where
  "apply_unop N operator operand =
     (case operator of
        negativeOperator \<Rightarrow> negate N operand
      | positiveOperator \<Rightarrow> to_number N operand
      | notOperator \<Rightarrow> Bool (\<not> truthy N operand))"

definition apply_logop :: "'n native \<Rightarrow> logop \<Rightarrow> 'n val \<Rightarrow> 'n val \<Rightarrow> 'n val" where
  "apply_logop N operator left right =
     (case operator of
        andOperator \<Rightarrow> (if truthy N left then right else left)
      | orOperator \<Rightarrow> (if truthy N left then left else right))"

text \<open>
  The head of the cursor, evaluated when it is a function
  (\<^verbatim>\<open>var key = index.shift(); if (typeof key == 'function') key = key(locals, env, data)\<close>).
\<close>

definition shift_key ::
  "'n applicator \<Rightarrow> 'n env \<Rightarrow> (string \<rightharpoonup> 'n val) \<Rightarrow> 'n val \<Rightarrow> 'n state
     \<Rightarrow> 'n val result \<times> 'n state" where
  "shift_key self env data index s =
     and_then (shift index s) (\<lambda>key s1.
     if is_function key then self key Locals env data Undefined s1 else (Ok key, s1))"

text \<open>
  \<^verbatim>\<open>if (key && content[key]) member = content[key]; else member = content[defaultKey]\<close>,
  given \<^verbatim>\<open>content[key]\<close> and \<^verbatim>\<open>content[defaultKey]\<close>. A branch is an object, hence truthy.
\<close>

definition select_member ::
  "'n native \<Rightarrow> 'n val \<Rightarrow> 'n evaluator option \<Rightarrow> 'n evaluator option \<Rightarrow> 'n val" where
  "select_member N key at_key at_default =
     (case (if truthy N key then at_key else None) of
        Some e \<Rightarrow> Compiled e
      | None \<Rightarrow> (case at_default of Some e \<Rightarrow> Compiled e | None \<Rightarrow> Undefined))"

text \<open>
  \<^verbatim>\<open>if (locals.__resolve__) return member(locals, env, data, index); else return member\<close>.
\<close>

definition return_member ::
  "'n native \<Rightarrow> 'n applicator \<Rightarrow> 'n val \<Rightarrow> 'n env \<Rightarrow> (string \<rightharpoonup> 'n val) \<Rightarrow> 'n val
     \<Rightarrow> 'n state \<Rightarrow> 'n val result \<times> 'n state" where
  "return_member N self member env data index s =
     (if truthy N (lookup (locals s) ''__resolve__'')
      then self member Locals env data index s
      else (Ok member, s))"

definition arrayLiteral_body ::
  "'n native \<Rightarrow> 'n applicator \<Rightarrow> 'n evaluator list \<Rightarrow> nat \<Rightarrow> 'n env \<Rightarrow> (string \<rightharpoonup> 'n val)
     \<Rightarrow> 'n val \<Rightarrow> 'n state \<Rightarrow> 'n val result \<times> 'n state" where
  "arrayLiteral_body N self content defaultKey env data index s =
     and_then (shift_key self env data index s) (\<lambda>key s1.
     return_member N self
       (select_member N key (array_object content (to_key N key))
          (if defaultKey < length content then Some (content ! defaultKey) else None))
       env data index s1)"

text \<open>\<^verbatim>\<open>var index = index || []\<close> makes a new array when no cursor was passed.\<close>

definition index_or_new :: "'n native \<Rightarrow> 'n val \<Rightarrow> 'n state \<Rightarrow> 'n val \<times> 'n state" where
  "index_or_new N index s =
     (if truthy N index then (index, s) else (Array (fresh s), new_array [] s))"

definition hashLiteral_body ::
  "'n native \<Rightarrow> 'n applicator \<Rightarrow> (string \<times> 'n evaluator) list \<Rightarrow> string \<Rightarrow> 'n env
     \<Rightarrow> (string \<rightharpoonup> 'n val) \<Rightarrow> 'n val \<Rightarrow> 'n state \<Rightarrow> 'n val result \<times> 'n state" where
  "hashLiteral_body N self content defaultKey env data index0 s0 =
     (case index_or_new N index0 s0 of
        (index, s) \<Rightarrow>
          and_then (shift_key self env data index s) (\<lambda>key s1.
          return_member N self
            (select_member N key (map_of content (to_key N key)) (map_of content defaultKey))
            env data index s1))"

text \<open>
  The loop that turns one part of an interpolated string into a string, at most \<open>k\<close> rounds:
  \<^verbatim>\<open>while (typeof part !== 'string') { ... }\<close>.
\<close>

primrec part_while ::
  "nat \<Rightarrow> 'n applicator \<Rightarrow> 'n val \<Rightarrow> 'n env \<Rightarrow> (string \<rightharpoonup> 'n val) \<Rightarrow> 'n state
     \<Rightarrow> string result \<times> 'n state" where
  "part_while 0 self part env data s =
     (case part of Str x \<Rightarrow> (Ok x, s) | _ \<Rightarrow> (OutOfFuel, s))"
| "part_while (Suc k) self part env data s =
     (case part of
        Str x \<Rightarrow> (Ok x, s)
      | EntityObj e \<Rightarrow>
          and_then (Entity__resolve self e env data Undefined s) (\<lambda>part' s1.
          part_while k self part' env data s1)
      | _ \<Rightarrow>
          and_then (self part Locals env data Undefined s) (\<lambda>part' s1.
          part_while k self part' env data s1))"

text \<open>\<^verbatim>\<open>content.forEach\<close> in \<^verbatim>\<open>complexString\<close>.\<close>

primrec parts_forEach ::
  "'n evaluator list \<Rightarrow> nat \<Rightarrow> 'n applicator \<Rightarrow> string list \<Rightarrow> 'n env \<Rightarrow> (string \<rightharpoonup> 'n val)
     \<Rightarrow> 'n state \<Rightarrow> string list result \<times> 'n state" where
  "parts_forEach [] k self parts env data s = (Ok parts, s)"
| "parts_forEach (elem # rest) k self parts env data s =
     and_then (self (Compiled elem) Locals env data Undefined s) (\<lambda>part s1.
     and_then (part_while k self part env data s1) (\<lambda>part' s2.
     parts_forEach rest k self (parts @ [part']) env data s2))"

definition complexString_body ::
  "nat \<Rightarrow> 'n applicator \<Rightarrow> addr \<Rightarrow> 'n evaluator list \<Rightarrow> 'n env \<Rightarrow> (string \<rightharpoonup> 'n val)
     \<Rightarrow> 'n state \<Rightarrow> 'n val result \<times> 'n state" where
  "complexString_body k self a content env data s =
     (if dirty s a = Some True then (Throw RecursiveReference, s)
      else
        and_then (parts_forEach content k self [] env data (s\<lparr>dirty := (dirty s)(a \<mapsto> True)\<rparr>))
          (\<lambda>parts s1. (Ok (Str (concat parts)), s1\<lparr>dirty := (dirty s1)(a \<mapsto> False)\<rparr>)))"

text \<open>\<^verbatim>\<open>args.forEach\<close> in \<^verbatim>\<open>callExpression\<close>.\<close>

primrec resolve_args ::
  "'n evaluator list \<Rightarrow> 'n applicator \<Rightarrow> 'n val list \<Rightarrow> 'n env \<Rightarrow> (string \<rightharpoonup> 'n val)
     \<Rightarrow> 'n state \<Rightarrow> 'n val list result \<times> 'n state" where
  "resolve_args [] self resolved_args env data s = (Ok resolved_args, s)"
| "resolve_args (arg # rest) self resolved_args env data s =
     and_then (self (Compiled arg) Locals env data Undefined s) (\<lambda>v s1.
     resolve_args rest self (resolved_args @ [v]) env data s1)"

text \<open>The member of a property or attribute expression, as it is passed on.\<close>

definition member_val :: "'n evaluator + string \<Rightarrow> 'n val" where
  "member_val p = (case p of Inl e \<Rightarrow> Compiled e | Inr name \<Rightarrow> Str name)"

text \<open>
  A closure applied to \<^verbatim>\<open>(locals, env, data, index)\<close>. Where the source calls an operator
  that is no function, the operands have been evaluated before the \<^verbatim>\<open>TypeError\<close>;
  \<^verbatim>\<open>logicalExpression\<close> has no \<^verbatim>\<open>return\<close>.
\<close>

definition run ::
  "'n native \<Rightarrow> nat \<Rightarrow> 'n applicator \<Rightarrow> 'n evaluator \<Rightarrow> 'n env \<Rightarrow> (string \<rightharpoonup> 'n val)
     \<Rightarrow> 'n val \<Rightarrow> 'n state \<Rightarrow> 'n val result \<times> 'n state" where
  "run N k self f env data index s =
     (case f of
        identifier' name \<Rightarrow> (Ok (lookup (entries env) name), s)
      | thisIdentifier \<Rightarrow> (Ok (lookup (locals s) ''__this__''), s)
      | variable name \<Rightarrow>
          (if lookup (locals s) name \<noteq> Undefined then (Ok (lookup (locals s) name), s)
           else (Ok (lookup data name), s))
      | global name \<Rightarrow>
          (case GLOBALS env of
             None \<Rightarrow> (Throw TypeError, s)
           | Some g \<Rightarrow> (Ok (lookup g name), s))
      | numberLiteral content \<Rightarrow> (Ok (Num content), s)
      | stringLiteral content \<Rightarrow> (Ok (Str content), s)
      | arrayLiteral content defaultKey \<Rightarrow>
          arrayLiteral_body N self content defaultKey env data index s
      | hashLiteral content defaultKey \<Rightarrow>
          hashLiteral_body N self content defaultKey env data index s
      | complexString a content \<Rightarrow> complexString_body k self a content env data s
      | unaryExpression operator operand \<Rightarrow>
          and_then (self (Compiled operand) Locals env data Undefined s) (\<lambda>v s1.
          case operator of
            None \<Rightarrow> (Throw TypeError, s1)
          | Some operator' \<Rightarrow> (Ok (apply_unop N operator' v), s1))
      | binaryExpression left operator right \<Rightarrow>
          and_then (self (Compiled left) Locals env data Undefined s) (\<lambda>l s1.
          and_then (self (Compiled right) Locals env data Undefined s1) (\<lambda>r s2.
          case operator of
            None \<Rightarrow> (Throw TypeError, s2)
          | Some operator' \<Rightarrow> (Ok (binary N operator' l r), s2)))
      | logicalExpression left operator right \<Rightarrow>
          and_then (self (Compiled left) Locals env data Undefined s) (\<lambda>l s1.
          and_then (self (Compiled right) Locals env data Undefined s1) (\<lambda>r s2.
          case operator of
            None \<Rightarrow> (Throw TypeError, s2)
          | Some operator' \<Rightarrow> (let combined = apply_logop N operator' l r in (Ok Undefined, s2))))
      | conditionalExpression test consequent alternate \<Rightarrow>
          and_then (self (Compiled test) Locals env data Undefined s) (\<lambda>t s1.
          if truthy N t then self (Compiled consequent) Locals env data Undefined s1
          else self (Compiled alternate) Locals env data Undefined s1)
      | callExpression callee args \<Rightarrow>
          and_then (resolve_args args self [] env data s) (\<lambda>resolved_args s1.
          and_then (self (Compiled callee) Locals env data Undefined s1) (\<lambda>g s2.
          self g (Args resolved_args) env data Undefined s2))
      | propertyExpression expression property \<Rightarrow>
          and_then (self (Compiled expression) Locals env data Undefined s) (\<lambda>ret s1.
          case ret of
            EntityObj e \<Rightarrow>
              Entity__yield self e env data (Array (fresh s1)) (new_array [member_val property] s1)
          | AttributeObj _ \<Rightarrow> (Throw TypeError, new_array [member_val property] s1)
          | _ \<Rightarrow> self ret Locals env data (Array (fresh s1)) (new_array [member_val property] s1))
      | attributeExpression expression attribute \<Rightarrow>
          and_then (self (Compiled expression) Locals env data Undefined s) (\<lambda>entity s1.
          case entity of
            EntityObj e \<Rightarrow> Entity_getAttribute N k self e (member_val attribute) env data s1
          | _ \<Rightarrow> (Throw TypeError, s1))
      | emptyExpression \<Rightarrow> (Throw TypeError, s))"

text \<open>
  A value applied to \<^verbatim>\<open>(a, env, data, index)\<close>. A compiled closure takes \<open>a\<close> as its
  \<^verbatim>\<open>locals\<close>; a macro takes it as \<^verbatim>\<open>args\<close>; any other value is not a function.
\<close>

definition invoke :: "'n native \<Rightarrow> nat \<Rightarrow> 'n applicator \<Rightarrow> 'n applicator" where
  "invoke N k self g a env data index s =
     (case g of
        Compiled f \<Rightarrow>
          (case a of
             Locals \<Rightarrow> run N k self f env data index s
           | Args xs \<Rightarrow> with_locals (array_object xs) (run N k self f env data index) s)
      | MacroFn names expression \<Rightarrow> macro_call self names expression a env data s
      | _ \<Rightarrow> (Throw TypeError, s))"

text \<open>Calls nest at most as deep as the fuel; every loop runs at most as long.\<close>

primrec call :: "'n native \<Rightarrow> nat \<Rightarrow> 'n applicator" where
  "call N 0 = (\<lambda>g a env data index s. (OutOfFuel, s))"
| "call N (Suc n) = invoke N n (call N n)"

subsection \<open>The public operations\<close>

definition get ::
  "'n native \<Rightarrow> nat \<Rightarrow> 'n Entity \<Rightarrow> 'n env \<Rightarrow> (string \<rightharpoonup> 'n val) \<Rightarrow> 'n val \<Rightarrow> 'n state
     \<Rightarrow> 'n val result \<times> 'n state" where
  "get N n this env data index s = Entity_get (call N n) this env data index s"

definition getAttribute ::
  "'n native \<Rightarrow> nat \<Rightarrow> 'n Entity \<Rightarrow> 'n val \<Rightarrow> 'n env \<Rightarrow> (string \<rightharpoonup> 'n val) \<Rightarrow> 'n state
     \<Rightarrow> 'n val result \<times> 'n state" where
  "getAttribute N n this name env data s =
     Entity_getAttribute N n (call N n) this name env data s"

definition getAttributes ::
  "'n native \<Rightarrow> nat \<Rightarrow> 'n Entity \<Rightarrow> 'n env \<Rightarrow> (string \<rightharpoonup> 'n val) \<Rightarrow> 'n state
     \<Rightarrow> (string \<times> 'n val) list result \<times> 'n state" where
  "getAttributes N n this env data s = Entity_getAttributes n (call N n) this env data s"

definition getEntity ::
  "'n native \<Rightarrow> nat \<Rightarrow> 'n Entity \<Rightarrow> 'n env \<Rightarrow> (string \<rightharpoonup> 'n val) \<Rightarrow> 'n state
     \<Rightarrow> ('n val \<times> (string \<times> 'n val) list) result \<times> 'n state" where
  "getEntity N n this env data s = Entity_getEntity n (call N n) this env data s"

subsection \<open>An instance of the native operations, for running the model\<close>

text \<open>
  Integers as numbers. Arithmetic is only carried out between numbers and gives
  \<^verbatim>\<open>undefined\<close> elsewhere; the theorems below hold for every \<open>native\<close>, and this instance
  only serves to evaluate the model on concrete inputs.
\<close>

definition int_to_string :: "int \<Rightarrow> string" where
  "int_to_string i = (if i < 0 then CHR ''-'' # decimal (nat (- i)) else decimal (nat i))"

definition int_binary :: "binop \<Rightarrow> int val \<Rightarrow> int val \<Rightarrow> int val" where
  "int_binary operator l r =
     (case operator of
        equalOperator \<Rightarrow> Bool (l = r)
      | notEqualOperator \<Rightarrow> Bool (l \<noteq> r)
      | _ \<Rightarrow>
          (case l of
             Num a \<Rightarrow>
               (case r of
                  Num b \<Rightarrow>
                    (case operator of
                       lessThanOperator \<Rightarrow> Bool (a < b)
                     | lessThanEqualOperator \<Rightarrow> Bool (a \<le> b)
                     | greaterThanOperator \<Rightarrow> Bool (a > b)
                     | greaterThanEqualOperator \<Rightarrow> Bool (a \<ge> b)
                     | addOperator \<Rightarrow> Num (a + b)
                     | substractOperator \<Rightarrow> Num (a - b)
                     | multiplyOperator \<Rightarrow> Num (a * b)
                     | _ \<Rightarrow> Undefined)
                | _ \<Rightarrow> Undefined)
           | _ \<Rightarrow> Undefined))"

definition int_native :: "int native" where
  "int_native =
     \<lparr>number_truthy = (\<lambda>i. i \<noteq> 0),
      number_to_string = int_to_string,
      object_to_string = (\<lambda>_. ''[object Object]''),
      negate = (\<lambda>v. case v of Num i \<Rightarrow> Num (- i) | _ \<Rightarrow> Undefined),
      to_number = (\<lambda>v. case v of Num i \<Rightarrow> Num i | _ \<Rightarrow> Undefined),
      binary = int_binary\<rparr>"

subsection \<open>Notions for stating the properties\<close>


text \<open>
  A computation under which the \<^verbatim>\<open>dirty\<close> flag at an address, once set, is still set
  afterwards, however the computation ends.
\<close>

definition marker_stays :: "addr \<Rightarrow> ('n state \<Rightarrow> 'a result \<times> 'n state) \<Rightarrow> bool" where
  "marker_stays a c \<longleftrightarrow>
     (\<forall>s r s'. c s = (r, s') \<longrightarrow> dirty s a = Some True \<longrightarrow> dirty s' a = Some True)"




text \<open>A store with nothing in it, and a context with no entries and no global variables.\<close>

definition empty_state :: "int state" where
  "empty_state = \<lparr>locals = Map.empty, dirty = Map.empty, arrays = Map.empty, fresh = 0\<rparr>"

definition empty_env :: "int env" where
  "empty_env = \<lparr>entries = Map.empty, GLOBALS = Some Map.empty\<rparr>"

text \<open>
  Two entities of the specification's examples: \<^verbatim>\<open>greeting\<close>, the interpolated string
  \<^verbatim>\<open>"Hello, {{ $name }}"\<close>, and \<^verbatim>\<open>items\<close>, an array literal with the default index
  \<^verbatim>\<open>[1]\<close>.
\<close>

definition greeting :: "int entity_node" where
  "greeting =
     \<lparr>ent_id = ''greeting'',
      ent_value = Some (ComplexStringNode [StringNode ''Hello, '', VariableNode ''name'']),
      ent_index = [], ent_attrs = [], ent_local = False\<rparr>"

definition items :: "int entity_node" where
  "items =
     \<lparr>ent_id = ''items'',
      ent_value = Some (ArrayNode [(StringNode ''one'', False), (StringNode ''many'', False)]),
      ent_index = [NumberNode 1], ent_attrs = [], ent_local = False\<rparr>"

section \<open>Properties\<close>

subsection \<open>Calls, macros and variables\<close>

declare call.simps [simp del]

lemma call_Suc: "call N (Suc n) = invoke N n (call N n)"
  by (simp add: call.simps)








lemma call_variable:
  "call N (Suc n) (Compiled (variable name)) Locals env data index s =
     (if lookup (locals s) name \<noteq> Undefined then (Ok (lookup (locals s) name), s)
      else (Ok (lookup data name), s))"
  by (simp add: call_Suc invoke_def run_def)






subsection \<open>The top-level loop\<close>















subsection \<open>Logical expressions\<close>

text \<open>
  Claim C3, at the input \<^verbatim>\<open>"a" || "b"\<close>. The node compiles to a \<^verbatim>\<open>logicalExpression\<close>
  closure with the operator \<^verbatim>\<open>orOperator\<close>; the closure evaluates both operands and returns
  \<^verbatim>\<open>undefined\<close>, where the operator applied to the operands is \<^verbatim>\<open>"a"\<close>.
\<close>

theorem logicalExpression_returns_undefined:
  "Expression (Some (LogicalExpressionNode (StringNode ''a'') (Some ''||'') (Some (StringNode ''b''))))
       empty_state
     = (Inr (logicalExpression (stringLiteral ''a'') (Some orOperator) (stringLiteral ''b'')),
        empty_state)
   \<and> call int_native (Suc (Suc 0))
        (Compiled (logicalExpression (stringLiteral ''a'') (Some orOperator) (stringLiteral ''b'')))
        Locals empty_env Map.empty Undefined empty_state
     = (Ok Undefined, empty_state)
   \<and> apply_logop int_native orOperator (Str ''a'') (Str ''b'') = Str ''a''"
  by (simp add: LogicalOperator_def call_Suc invoke_def run_def and_then_def apply_logop_def
      truthy_def)

subsection \<open>The marker of an interpolated string\<close>

lemma marker_staysI:
  "(\<And>s r s'. c s = (r, s') \<Longrightarrow> dirty s a = Some True \<Longrightarrow> dirty s' a = Some True)
     \<Longrightarrow> marker_stays a c"
  by (simp add: marker_stays_def)

lemma marker_staysD:
  "marker_stays a c \<Longrightarrow> c s = (r, s') \<Longrightarrow> dirty s a = Some True \<Longrightarrow> dirty s' a = Some True"
  by (simp add: marker_stays_def)

lemma ms_return: "marker_stays a (\<lambda>s. (r, s))"
  by (simp add: marker_stays_def)

lemma ms_and_then:
  assumes m: "marker_stays a m" and f: "\<And>x. marker_stays a (f x)"
  shows "marker_stays a (\<lambda>s. and_then (m s) f)"
proof (rule marker_staysI)
  fix s r s'
  assume run: "and_then (m s) f = (r, s')" and d: "dirty s a = Some True"
  obtain r1 s1 where ms: "m s = (r1, s1)" by (cases "m s")
  from marker_staysD [OF m ms d] have d1: "dirty s1 a = Some True" .
  show "dirty s' a = Some True"
  proof (cases r1)
    case (Ok x)
    with run ms have "f x s1 = (r, s')" by (simp add: and_then_def)
    from marker_staysD [OF f this d1] show ?thesis .
  next
    case (Throw e)
    with run ms d1 show ?thesis by (auto simp: and_then_def)
  next
    case OutOfFuel
    with run ms d1 show ?thesis by (auto simp: and_then_def)
  qed
qed

lemma ms_before:
  assumes c: "marker_stays a c" and g: "\<And>s. dirty (g s) = dirty s"
  shows "marker_stays a (\<lambda>s. c (g s))"
  using c by (auto simp: marker_stays_def g)

lemma ms_if:
  assumes "marker_stays a c" and "marker_stays a d"
  shows "marker_stays a (\<lambda>s. if b s then c s else d s)"
  using assms by (auto simp: marker_stays_def)

lemma ms_with_locals:
  assumes c: "marker_stays a c"
  shows "marker_stays a (with_locals own c)"
proof (rule marker_staysI)
  fix s r s'
  assume run: "with_locals own c s = (r, s')" and d: "dirty s a = Some True"
  obtain r1 s1 where cs: "c (s\<lparr>locals := own\<rparr>) = (r1, s1)" by (cases "c (s\<lparr>locals := own\<rparr>)")
  from d have "dirty (s\<lparr>locals := own\<rparr>) a = Some True" by simp
  from marker_staysD [OF c cs this] run cs show "dirty s' a = Some True"
    by (auto simp: with_locals_def)
qed

lemma ms_shift: "marker_stays a (shift index)"
  by (rule marker_staysI)
    (auto simp: shift_def split: val.splits option.splits list.splits)

lemma dirty_new_array [simp]: "dirty (new_array xs s) = dirty s"
  by (simp add: new_array_def)

text \<open>
  In the rest of this subsection \<open>self\<close> is an applicator under which the marker stays
  set.
\<close>

lemma ms_Entity__get:
  assumes self: "\<And>g x env data index. marker_stays a (self g x env data index)"
  shows "marker_stays a (Entity__get self this env data index)"
  unfolding Entity__get_def [abs_def]
  by (rule ms_before [OF self]) simp

lemma ms_Entity__yield:
  assumes self: "\<And>g x env data index. marker_stays a (self g x env data index)"
  shows "marker_stays a (Entity__yield self this env data index)"
  unfolding Entity__yield_def [abs_def]
  by (rule ms_before [OF ms_Entity__get [OF self]]) simp

lemma ms_Entity__resolve:
  assumes self: "\<And>g x env data index. marker_stays a (self g x env data index)"
  shows "marker_stays a (Entity__resolve self this env data index)"
  unfolding Entity__resolve_def [abs_def]
  by (rule ms_before [OF ms_Entity__get [OF self]]) simp

lemma ms_shift_key:
  assumes self: "\<And>g x env data index. marker_stays a (self g x env data index)"
  shows "marker_stays a (shift_key self env data index)"
  unfolding shift_key_def [abs_def]
  by (intro ms_and_then ms_shift ms_if self ms_return)

lemma ms_return_member:
  assumes self: "\<And>g x env data index. marker_stays a (self g x env data index)"
  shows "marker_stays a (return_member N self member env data index)"
  unfolding return_member_def [abs_def]
  by (intro ms_if self ms_return)

lemma ms_arrayLiteral_body:
  assumes self: "\<And>g x env data index. marker_stays a (self g x env data index)"
  shows "marker_stays a (arrayLiteral_body N self content defaultKey env data index)"
  unfolding arrayLiteral_body_def [abs_def]
  by (intro ms_and_then ms_shift_key ms_return_member self)

lemma ms_hashLiteral_body:
  assumes self: "\<And>g x env data index. marker_stays a (self g x env data index)"
  shows "marker_stays a (hashLiteral_body N self content defaultKey env data index)"
proof (cases "truthy N index")
  case True
  then have "hashLiteral_body N self content defaultKey env data index =
      (\<lambda>s. and_then (shift_key self env data index s) (\<lambda>key s1.
          return_member N self
            (select_member N key (map_of content (to_key N key)) (map_of content defaultKey))
            env data index s1))"
    by (rule_tac ext) (simp add: hashLiteral_body_def index_or_new_def)
  then show ?thesis
    by (simp only:) (intro ms_and_then ms_shift_key ms_return_member self)
next
  case False
  then have "hashLiteral_body N self content defaultKey env data index =
      (\<lambda>s. (\<lambda>t. and_then (shift_key self env data (Array (fresh s)) t) (\<lambda>key s1.
          return_member N self
            (select_member N key (map_of content (to_key N key)) (map_of content defaultKey))
            env data (Array (fresh s)) s1)) (new_array [] s))"
    by (rule_tac ext) (simp add: hashLiteral_body_def index_or_new_def)
  moreover have "marker_stays a \<dots>"
  proof (rule marker_staysI)
    fix s r s'
    assume run: "(\<lambda>t. and_then (shift_key self env data (Array (fresh s)) t) (\<lambda>key s1.
          return_member N self
            (select_member N key (map_of content (to_key N key)) (map_of content defaultKey))
            env data (Array (fresh s)) s1)) (new_array [] s) = (r, s')"
      and d: "dirty s a = Some True"
    have "marker_stays a (\<lambda>t. and_then (shift_key self env data (Array (fresh s)) t) (\<lambda>key s1.
          return_member N self
            (select_member N key (map_of content (to_key N key)) (map_of content defaultKey))
            env data (Array (fresh s)) s1))"
      by (intro ms_and_then ms_shift_key ms_return_member self)
    from marker_staysD [OF this run] d show "dirty s' a = Some True" by simp
  qed
  ultimately show ?thesis by simp
qed

lemma ms_part_while:
  assumes self: "\<And>g x env data index. marker_stays a (self g x env data index)"
  shows "marker_stays a (part_while k self part env data)"
proof (induction k arbitrary: part)
  case 0
  show ?case
    by (rule marker_staysI) (auto split: val.splits)
next
  case (Suc k)
  have step: "marker_stays a (\<lambda>s. and_then (c s) (\<lambda>part' s1. part_while k self part' env data s1))"
    if "marker_stays a c" for c
    using that by (intro ms_and_then) (simp_all add: Suc.IH)
  show ?case
  proof (cases part)
    case (Str x)
    then show ?thesis by (auto intro: marker_staysI)
  next
    case (EntityObj e)
    then have "part_while (Suc k) self part env data =
      (\<lambda>s. and_then (Entity__resolve self e env data Undefined s)
         (\<lambda>part' s1. part_while k self part' env data s1))"
      by (rule_tac ext) simp
    with step [OF ms_Entity__resolve [OF self]] show ?thesis by simp
  qed (insert step [OF self], simp_all)
qed

lemma ms_parts_forEach:
  assumes self: "\<And>g x env data index. marker_stays a (self g x env data index)"
  shows "marker_stays a (parts_forEach content k self parts env data)"
proof (induction content arbitrary: parts)
  case Nil
  show ?case by (simp add: ms_return)
next
  case (Cons elem rest)
  show ?case
    by (simp, intro ms_and_then self ms_part_while Cons.IH)
qed

lemma ms_complexString_body:
  assumes self: "\<And>g x env data index. marker_stays a (self g x env data index)"
  shows "marker_stays a (complexString_body k self b content env data)"
proof (rule marker_staysI)
  fix s r s'
  assume run: "complexString_body k self b content env data s = (r, s')"
    and d: "dirty s a = Some True"
  show "dirty s' a = Some True"
  proof (cases "dirty s b = Some True")
    case True
    with run d show ?thesis by (simp add: complexString_body_def)
  next
    case False
    with d have ne: "b \<noteq> a" by auto
    have clear: "marker_stays a
        (\<lambda>s1. (Ok (Str (concat parts)), s1\<lparr>dirty := (dirty s1)(b \<mapsto> False)\<rparr>))" for parts
      using ne by (auto simp: marker_stays_def)
    have "marker_stays a (\<lambda>t. and_then (parts_forEach content k self [] env data t)
          (\<lambda>parts s1. (Ok (Str (concat parts)), s1\<lparr>dirty := (dirty s1)(b \<mapsto> False)\<rparr>)))"
      by (intro ms_and_then ms_parts_forEach self clear)
    moreover from False run have
      "and_then (parts_forEach content k self [] env data (s\<lparr>dirty := (dirty s)(b \<mapsto> True)\<rparr>))
          (\<lambda>parts s1. (Ok (Str (concat parts)), s1\<lparr>dirty := (dirty s1)(b \<mapsto> False)\<rparr>)) = (r, s')"
      by (simp add: complexString_body_def)
    moreover from d have "dirty (s\<lparr>dirty := (dirty s)(b \<mapsto> True)\<rparr>) a = Some True"
      by simp
    ultimately show ?thesis by (rule marker_staysD)
  qed
qed

lemma ms_resolve_args:
  assumes self: "\<And>g x env data index. marker_stays a (self g x env data index)"
  shows "marker_stays a (resolve_args args self resolved_args env data)"
proof (induction args arbitrary: resolved_args)
  case Nil
  show ?case by (simp add: ms_return)
next
  case (Cons arg rest)
  show ?case
    by (simp, intro ms_and_then self Cons.IH)
qed

lemma ms_Attribute_get_while:
  assumes self: "\<And>g x env data index. marker_stays a (self g x env data index)"
  shows "marker_stays a (Attribute_get_while k self ret env data index)"
proof (induction k arbitrary: ret)
  case 0
  show ?case
    by (rule marker_staysI) (auto split: val.splits)
next
  case (Suc k)
  have step: "marker_stays a (\<lambda>s. and_then (shift index s) (\<lambda>key s1.
          and_then (self ret Locals env data key s1) (\<lambda>ret' s2.
          Attribute_get_while k self ret' env data index s2)))"
    by (intro ms_and_then ms_shift self Suc.IH)
  show ?case
    by (cases ret) (insert step, simp_all add: ms_return)
qed

lemma ms_Attribute_get:
  assumes self: "\<And>g x env data index. marker_stays a (self g x env data index)"
  shows "marker_stays a (Attribute_get k self this env data index)"
  unfolding Attribute_get_def [abs_def] Attribute_yield_def [abs_def]
  by (intro ms_and_then ms_shift self ms_Attribute_get_while)
    (simp add: marker_stays_def)

lemma ms_Entity_getAttribute:
  assumes self: "\<And>g x env data index. marker_stays a (self g x env data index)"
  shows "marker_stays a (Entity_getAttribute N k self this name env data)"
proof (cases "map_of (e_attributes this) (to_key N name)")
  case None
  then have "Entity_getAttribute N k self this name env data = (\<lambda>s. (Throw TypeError, s))"
    by (rule_tac ext) (simp add: Entity_getAttribute_def)
  then show ?thesis by (simp add: ms_return)
next
  case (Some attr)
  then have "Entity_getAttribute N k self this name env data =
      with_locals [''__this__'' \<mapsto> EntityObj this] (Attribute_get k self attr env data Undefined)"
    by (rule_tac ext) (simp add: Entity_getAttribute_def)
  then show ?thesis by (simp add: ms_with_locals ms_Attribute_get self)
qed

lemma ms_macro_call:
  assumes self: "\<And>g x env data index. marker_stays a (self g x env data index)"
  shows "marker_stays a (macro_call self names expression args env data)"
proof (rule marker_staysI)
  fix s r s'
  assume run: "macro_call self names expression args env data s = (r, s')"
    and d: "dirty s a = Some True"
  from run have "with_locals (args_forEach names 0 (args_at args s) Map.empty)
       (self (Compiled expression) Locals env data Undefined) s = (r, s')"
    by (simp add: macro_call_def)
  from marker_staysD [OF ms_with_locals [OF self] this d] show "dirty s' a = Some True" .
qed

lemma ms_run:
  assumes self: "\<And>g x env data index. marker_stays a (self g x env data index)"
  shows "marker_stays a (run N k self f env data index)"
proof (cases f)
  case (global name)
  then show ?thesis
    by (auto simp: run_def marker_stays_def split: option.splits)
next
  case (arrayLiteral content defaultKey)
  then show ?thesis
    by (simp add: run_def [abs_def] ms_arrayLiteral_body self)
next
  case (hashLiteral content defaultKey)
  then show ?thesis
    by (simp add: run_def [abs_def] ms_hashLiteral_body self)
next
  case (complexString b content)
  then show ?thesis
    by (simp add: run_def [abs_def] ms_complexString_body self)
next
  case (unaryExpression operator operand)
  have "marker_stays a (\<lambda>s1. case operator of None \<Rightarrow> (Throw TypeError, s1)
          | Some operator' \<Rightarrow> (Ok (apply_unop N operator' v), s1))" for v
    by (auto simp: marker_stays_def split: option.splits)
  with unaryExpression show ?thesis
    by (simp add: run_def [abs_def]) (intro ms_and_then self)
next
  case (binaryExpression left operator right)
  have "marker_stays a (\<lambda>s2. case operator of None \<Rightarrow> (Throw TypeError, s2)
          | Some operator' \<Rightarrow> (Ok (binary N operator' l r), s2))" for l r
    by (auto simp: marker_stays_def split: option.splits)
  with binaryExpression show ?thesis
    by (simp add: run_def [abs_def]) (intro ms_and_then self)
next
  case (logicalExpression left operator right)
  have "marker_stays a (\<lambda>s2. case operator of None \<Rightarrow> (Throw TypeError, s2)
          | Some operator' \<Rightarrow>
              (let combined = apply_logop N operator' l r in (Ok Undefined, s2)))" for l r
    by (auto simp: marker_stays_def split: option.splits)
  with logicalExpression show ?thesis
    by (simp add: run_def [abs_def]) (intro ms_and_then self)
next
  case (conditionalExpression test consequent alternate)
  then show ?thesis
    by (simp add: run_def [abs_def]) (intro ms_and_then ms_if self)
next
  case (callExpression callee args)
  then show ?thesis
    by (simp add: run_def [abs_def]) (intro ms_and_then ms_resolve_args self)
next
  case (propertyExpression expression property)
  have after: "marker_stays a (\<lambda>s1. case ret of
            EntityObj e \<Rightarrow>
              Entity__yield self e env data (Array (fresh s1)) (new_array [member_val property] s1)
          | AttributeObj _ \<Rightarrow> (Throw TypeError, new_array [member_val property] s1)
          | _ \<Rightarrow> self ret Locals env data (Array (fresh s1)) (new_array [member_val property] s1))"
    for ret
  proof (rule marker_staysI)
    fix s1 r s'
    assume run: "(case ret of
            EntityObj e \<Rightarrow>
              Entity__yield self e env data (Array (fresh s1)) (new_array [member_val property] s1)
          | AttributeObj _ \<Rightarrow> (Throw TypeError, new_array [member_val property] s1)
          | _ \<Rightarrow> self ret Locals env data (Array (fresh s1)) (new_array [member_val property] s1))
        = (r, s')"
      and d: "dirty s1 a = Some True"
    from d have d': "dirty (new_array [member_val property] s1) a = Some True"
      by simp
    show "dirty s' a = Some True"
    proof (cases ret)
      case (EntityObj e)
      with run have "Entity__yield self e env data (Array (fresh s1))
          (new_array [member_val property] s1) = (r, s')"
        by simp
      from marker_staysD [OF ms_Entity__yield [OF self] this d'] show ?thesis .
    next
      case (AttributeObj x)
      with run d' show ?thesis by auto
    qed (insert run, auto dest: marker_staysD [OF self _ d'])
  qed
  from propertyExpression show ?thesis
    by (simp add: run_def [abs_def]) (intro ms_and_then self after)
next
  case (attributeExpression expression attribute)
  have "marker_stays a (\<lambda>s1. case entity of
            EntityObj e \<Rightarrow> Entity_getAttribute N k self e (member_val attribute) env data s1
          | _ \<Rightarrow> (Throw TypeError, s1))" for entity
    by (cases entity) (simp_all add: ms_return ms_Entity_getAttribute self)
  with attributeExpression show ?thesis
    by (simp add: run_def [abs_def]) (intro ms_and_then self)
qed (auto simp: run_def marker_stays_def)

lemma ms_invoke:
  assumes self: "\<And>g x env data index. marker_stays a (self g x env data index)"
  shows "marker_stays a (invoke N k self g x env data index)"
proof (cases g)
  case (Compiled f)
  then show ?thesis
    by (cases x)
      (simp_all add: invoke_def [abs_def] ms_run ms_with_locals self)
next
  case (MacroFn names expression)
  then show ?thesis
    by (simp add: invoke_def [abs_def] ms_macro_call self)
qed (simp_all add: invoke_def [abs_def] ms_return)

lemma ms_call: "marker_stays a (call N n g x env data index)"
proof (induction n arbitrary: g x env data index)
  case 0
  show ?case by (simp add: call.simps ms_return)
next
  case (Suc n)
  show ?case
    unfolding call_Suc by (rule ms_invoke) (rule Suc.IH)
qed

lemma call_complexString:
  "call N (Suc n) (Compiled (complexString a content)) Locals env data index s =
     complexString_body n (call N n) a content env data s"
  by (simp add: call_Suc invoke_def run_def)

text \<open>
  Claim C2. A compiled interpolated string that is called while its marker is set fails with
  the thrown \<^verbatim>\<open>"Recursive reference"\<close> and changes nothing. Called while the marker is clear,
  it evaluates its parts from a state in which the marker is set, and when they have all become
  strings it clears the marker and returns their concatenation: after a normal return the
  marker is clear. No call of any value changes a marker that is set, so, as long as the parts
  of the string are being evaluated, every call that comes back to the same compiled string
  fails in this way; it neither loops nor returns a part of the text.
\<close>

theorem complexString_reentrancy_guard:
  "(dirty s a = Some True \<longrightarrow>
      call N (Suc n) (Compiled (complexString a content)) Locals env data index s
        = (Throw RecursiveReference, s))
   \<and> (dirty s a \<noteq> Some True \<longrightarrow>
      call N (Suc n) (Compiled (complexString a content)) Locals env data index s
        = and_then
            (parts_forEach content n (call N n) [] env data (s\<lparr>dirty := (dirty s)(a \<mapsto> True)\<rparr>))
            (\<lambda>parts s1. (Ok (Str (concat parts)), s1\<lparr>dirty := (dirty s1)(a \<mapsto> False)\<rparr>)))
   \<and> (dirty s a \<noteq> Some True
        \<and> call N (Suc n) (Compiled (complexString a content)) Locals env data index s = (Ok v, s')
      \<longrightarrow> dirty s' a = Some False)
   \<and> (dirty t a = Some True \<and> call N m g x env' data' index' t = (r, t')
      \<longrightarrow> dirty t' a = Some True)"
proof (intro conjI impI)
  assume "dirty s a = Some True"
  then show "call N (Suc n) (Compiled (complexString a content)) Locals env data index s
        = (Throw RecursiveReference, s)"
    by (simp add: call_complexString complexString_body_def)
next
  assume "dirty s a \<noteq> Some True"
  then show "call N (Suc n) (Compiled (complexString a content)) Locals env data index s
        = and_then
            (parts_forEach content n (call N n) [] env data (s\<lparr>dirty := (dirty s)(a \<mapsto> True)\<rparr>))
            (\<lambda>parts s1. (Ok (Str (concat parts)), s1\<lparr>dirty := (dirty s1)(a \<mapsto> False)\<rparr>))"
    by (simp add: call_complexString complexString_body_def)
next
  assume "dirty s a \<noteq> Some True
        \<and> call N (Suc n) (Compiled (complexString a content)) Locals env data index s = (Ok v, s')"
  then show "dirty s' a = Some False"
    by (auto simp: call_complexString complexString_body_def and_then_def
        split: prod.splits result.splits)
next
  assume "dirty t a = Some True \<and> call N m g x env' data' index' t = (r, t')"
  with marker_staysD [OF ms_call] show "dirty t' a = Some True"
    by blast
qed

theorem complexString_reentrancy_guard_witness:
  "dirty (empty_state\<lparr>dirty := [0 \<mapsto> True]\<rparr>) 0 = Some True
   \<and> (\<forall>n. call int_native (Suc (Suc n)) (Compiled (complexString 0 [variable ''x'']))
        Locals empty_env [''x'' \<mapsto> Compiled (complexString 0 [variable ''x''])] Undefined
        (empty_state\<lparr>dirty := [0 \<mapsto> False]\<rparr>)
      = (Throw RecursiveReference, empty_state\<lparr>dirty := [0 \<mapsto> True]\<rparr>))
   \<and> dirty (empty_state\<lparr>dirty := [0 \<mapsto> False]\<rparr>) 0 \<noteq> Some True
   \<and> call int_native (Suc (Suc 0))
        (Compiled (complexString 0 [stringLiteral ''Hello, '', variable ''name'']))
        Locals empty_env [''name'' \<mapsto> Str ''World''] Undefined
        (empty_state\<lparr>dirty := [0 \<mapsto> False]\<rparr>)
      = (Ok (Str ''Hello, World''), empty_state\<lparr>dirty := [0 \<mapsto> False]\<rparr>)
   \<and> dirty (empty_state\<lparr>dirty := [0 \<mapsto> False]\<rparr>) 0 = Some False"
proof (intro conjI allI)
  let ?h = "complexString 0 [stringLiteral ''Hello, '', variable ''name''] :: int evaluator"
  let ?c = "empty_state\<lparr>dirty := [0 \<mapsto> False]\<rparr>"
  show clear: "dirty ?c 0 \<noteq> Some True"
    by simp
  from complexString_reentrancy_guard
    [where s = ?c and a = 0 and N = int_native and n = "Suc 0"
       and content = "[stringLiteral ''Hello, '', variable ''name'']" and env = empty_env
       and data = "[''name'' \<mapsto> Str ''World'']" and index = Undefined] clear
  have "call int_native (Suc (Suc 0)) (Compiled ?h) Locals empty_env
      [''name'' \<mapsto> Str ''World''] Undefined ?c
    = and_then
        (parts_forEach [stringLiteral ''Hello, '', variable ''name''] (Suc 0)
           (call int_native (Suc 0)) [] empty_env [''name'' \<mapsto> Str ''World'']
           (?c\<lparr>dirty := (dirty ?c)(0 \<mapsto> True)\<rparr>))
        (\<lambda>parts s1. (Ok (Str (concat parts)), s1\<lparr>dirty := (dirty s1)(0 \<mapsto> False)\<rparr>))"
    by blast
  then show ok: "call int_native (Suc (Suc 0)) (Compiled ?h) Locals empty_env
      [''name'' \<mapsto> Str ''World''] Undefined ?c = (Ok (Str ''Hello, World''), ?c)"
    by (simp add: call_Suc invoke_def run_def and_then_def lookup_def empty_state_def)
  from complexString_reentrancy_guard
    [where s = ?c and a = 0 and N = int_native and n = "Suc 0"
       and content = "[stringLiteral ''Hello, '', variable ''name'']" and env = empty_env
       and data = "[''name'' \<mapsto> Str ''World'']" and index = Undefined
       and v = "Str ''Hello, World''" and s' = ?c] clear ok
  show "dirty ?c 0 = Some False"
    by blast
next
  show d: "dirty (empty_state\<lparr>dirty := [0 \<mapsto> True]\<rparr>) 0 = Some True"
    by simp
  fix n
  let ?f = "complexString 0 [variable ''x''] :: int evaluator"
  let ?data = "[''x'' \<mapsto> Compiled ?f]"
  from complexString_reentrancy_guard
    [where s = "empty_state\<lparr>dirty := [0 \<mapsto> True]\<rparr>" and a = 0 and N = int_native and n = n
       and content = "[variable ''x'']" and env = empty_env and data = ?data
       and index = Undefined] d
  have inner: "call int_native (Suc n) (Compiled ?f) Locals empty_env ?data Undefined
       (empty_state\<lparr>dirty := [0 \<mapsto> True]\<rparr>)
     = (Throw RecursiveReference, empty_state\<lparr>dirty := [0 \<mapsto> True]\<rparr>)"
    by blast
  have part: "call int_native (Suc n) (Compiled (variable ''x'')) Locals empty_env ?data Undefined
       (empty_state\<lparr>dirty := [0 \<mapsto> True]\<rparr>)
     = (Ok (Compiled ?f), empty_state\<lparr>dirty := [0 \<mapsto> True]\<rparr>)"
    by (simp add: call_variable lookup_def empty_state_def)
  show "call int_native (Suc (Suc n)) (Compiled ?f) Locals empty_env ?data Undefined
        (empty_state\<lparr>dirty := [0 \<mapsto> False]\<rparr>)
      = (Throw RecursiveReference, empty_state\<lparr>dirty := [0 \<mapsto> True]\<rparr>)"
    by (simp add: call_complexString [of int_native "Suc n"] complexString_body_def and_then_def
        part inner)
qed

subsection \<open>The dispatch on the kind of a node\<close>










subsection \<open>Array and hash literals\<close>

















subsection \<open>Two calls of \<^verbatim>\<open>get\<close> in a row\<close>

text \<open>
  Claim C4, at the entity \<^verbatim>\<open>items\<close>, whose value is the array literal
  \<^verbatim>\<open>["one", "many"]\<close> and whose default index is \<^verbatim>\<open>[1]\<close>. \<^verbatim>\<open>get\<close> without an index
  hands \<^verbatim>\<open>this.index\<close> itself to the array literal, whose \<^verbatim>\<open>shift\<close> empties it: the first
  call returns \<^verbatim>\<open>"many"\<close> and leaves the entity with the index \<^verbatim>\<open>[]\<close>, and the second call
  returns \<^verbatim>\<open>"one"\<close>.
\<close>

theorem get_consumes_default_index:
  "Entity items empty_state
     = (Inr \<lparr>e_id = ''items'',
             e_value = arrayLiteral [stringLiteral ''one'', stringLiteral ''many''] 0,
             e_index = 0, e_attributes = [], e_local = False\<rparr>,
        empty_state\<lparr>arrays := [0 \<mapsto> [Compiled (numberLiteral 1)]], fresh := 1\<rparr>)
   \<and> fst (get int_native (Suc (Suc 0))
        \<lparr>e_id = ''items'',
         e_value = arrayLiteral [stringLiteral ''one'', stringLiteral ''many''] 0,
         e_index = 0, e_attributes = [], e_local = False\<rparr>
        empty_env Map.empty Undefined
        (empty_state\<lparr>arrays := [0 \<mapsto> [Compiled (numberLiteral 1)]], fresh := 1\<rparr>))
     = Ok (Str ''many'')
   \<and> arrays (snd (get int_native (Suc (Suc 0))
        \<lparr>e_id = ''items'',
         e_value = arrayLiteral [stringLiteral ''one'', stringLiteral ''many''] 0,
         e_index = 0, e_attributes = [], e_local = False\<rparr>
        empty_env Map.empty Undefined
        (empty_state\<lparr>arrays := [0 \<mapsto> [Compiled (numberLiteral 1)]], fresh := 1\<rparr>))) 0
     = Some []
   \<and> fst (get int_native (Suc (Suc 0))
        \<lparr>e_id = ''items'',
         e_value = arrayLiteral [stringLiteral ''one'', stringLiteral ''many''] 0,
         e_index = 0, e_attributes = [], e_local = False\<rparr>
        empty_env Map.empty Undefined
        (snd (get int_native (Suc (Suc 0))
           \<lparr>e_id = ''items'',
            e_value = arrayLiteral [stringLiteral ''one'', stringLiteral ''many''] 0,
            e_index = 0, e_attributes = [], e_local = False\<rparr>
           empty_env Map.empty Undefined
           (empty_state\<lparr>arrays := [0 \<mapsto> [Compiled (numberLiteral 1)]], fresh := 1\<rparr>))))
     = Ok (Str ''one'')"
  by (simp add: items_def Entity_def new_array_def push_def empty_state_def
      get_def Entity_get_def Entity__resolve_def Entity__get_def
      call_Suc invoke_def run_def arrayLiteral_body_def shift_key_def shift_def and_then_def
      is_function_def select_member_def return_member_def array_object_def to_key_def
      truthy_def lookup_def int_native_def int_to_string_def decimal.simps)

text \<open>
  Claim C5, at the entity \<^verbatim>\<open>greeting\<close>. Without a \<^verbatim>\<open>name\<close> in the data, the second part of
  the string is \<^verbatim>\<open>undefined\<close>, and calling it is a \<^verbatim>\<open>TypeError\<close>; the exception leaves
  \<^verbatim>\<open>complexString\<close> before \<^verbatim>\<open>dirty = false\<close>, so the marker stays set. The same call again
  fails with \<^verbatim>\<open>"Recursive reference"\<close> instead, and so does the call with a \<^verbatim>\<open>name\<close>, which
  returns \<^verbatim>\<open>"Hello, World"\<close> when no call has failed before it.
\<close>

theorem failed_get_leaves_marker_set:
  "Entity greeting empty_state
     = (Inr \<lparr>e_id = ''greeting'',
             e_value = complexString 0 [stringLiteral ''Hello, '', variable ''name''],
             e_index = 1, e_attributes = [], e_local = False\<rparr>,
        empty_state\<lparr>dirty := [0 \<mapsto> False], arrays := [1 \<mapsto> []], fresh := 2\<rparr>)
   \<and> fst (get int_native (Suc (Suc 0))
        \<lparr>e_id = ''greeting'',
         e_value = complexString 0 [stringLiteral ''Hello, '', variable ''name''],
         e_index = 1, e_attributes = [], e_local = False\<rparr>
        empty_env Map.empty Undefined
        (empty_state\<lparr>dirty := [0 \<mapsto> False], arrays := [1 \<mapsto> []], fresh := 2\<rparr>))
     = Throw TypeError
   \<and> dirty (snd (get int_native (Suc (Suc 0))
        \<lparr>e_id = ''greeting'',
         e_value = complexString 0 [stringLiteral ''Hello, '', variable ''name''],
         e_index = 1, e_attributes = [], e_local = False\<rparr>
        empty_env Map.empty Undefined
        (empty_state\<lparr>dirty := [0 \<mapsto> False], arrays := [1 \<mapsto> []], fresh := 2\<rparr>))) 0
     = Some True
   \<and> fst (get int_native (Suc (Suc 0))
        \<lparr>e_id = ''greeting'',
         e_value = complexString 0 [stringLiteral ''Hello, '', variable ''name''],
         e_index = 1, e_attributes = [], e_local = False\<rparr>
        empty_env Map.empty Undefined
        (snd (get int_native (Suc (Suc 0))
           \<lparr>e_id = ''greeting'',
            e_value = complexString 0 [stringLiteral ''Hello, '', variable ''name''],
            e_index = 1, e_attributes = [], e_local = False\<rparr>
           empty_env Map.empty Undefined
           (empty_state\<lparr>dirty := [0 \<mapsto> False], arrays := [1 \<mapsto> []], fresh := 2\<rparr>))))
     = Throw RecursiveReference
   \<and> fst (get int_native (Suc (Suc 0))
        \<lparr>e_id = ''greeting'',
         e_value = complexString 0 [stringLiteral ''Hello, '', variable ''name''],
         e_index = 1, e_attributes = [], e_local = False\<rparr>
        empty_env [''name'' \<mapsto> Str ''World''] Undefined
        (empty_state\<lparr>dirty := [0 \<mapsto> False], arrays := [1 \<mapsto> []], fresh := 2\<rparr>))
     = Ok (Str ''Hello, World'')
   \<and> fst (get int_native (Suc (Suc 0))
        \<lparr>e_id = ''greeting'',
         e_value = complexString 0 [stringLiteral ''Hello, '', variable ''name''],
         e_index = 1, e_attributes = [], e_local = False\<rparr>
        empty_env [''name'' \<mapsto> Str ''World''] Undefined
        (snd (get int_native (Suc (Suc 0))
           \<lparr>e_id = ''greeting'',
            e_value = complexString 0 [stringLiteral ''Hello, '', variable ''name''],
            e_index = 1, e_attributes = [], e_local = False\<rparr>
           empty_env Map.empty Undefined
           (empty_state\<lparr>dirty := [0 \<mapsto> False], arrays := [1 \<mapsto> []], fresh := 2\<rparr>))))
     = Throw RecursiveReference"
  by (simp add: greeting_def Entity_def new_flag_def new_array_def empty_state_def
      get_def Entity_get_def Entity__resolve_def Entity__get_def
      call_Suc call.simps invoke_def run_def complexString_body_def and_then_def lookup_def)

end
